theory Spec2Isabelle
  imports Main "HOL-Library.Sublist"
begin

section \<open>The chat aggregation server (server.js)\<close>

text \<open>
  The server keeps four module-level variables, registers one handler for inbound Twitch
  messages, two socket handlers (\<open>start connection\<close>, \<open>disconnect\<close>) and one timer callback
  (\<open>fetchYoutubeMessages\<close>). Each handler is embedded as a function from the state before
  to the state after, together with the list of calls it makes on its collaborators (the
  Twitch client, the YouTube client and the socket broadcast), in the order of the source.

  What a collaborator answers is an argument of the handler: the model does not choose it.
  The timer callback is embedded in two parts, split where the source awaits the fetch:
  the part that runs when the interval fires, and the part that runs when the fetch is
  answered. Other handlers can run between the two, and several fetches can be in flight.
  The \<open>start connection\<close> handler is embedded as running to completion. Console output
  is left out.
\<close>

subsection \<open>Values\<close>

text \<open>
  A JavaScript \<open>Date\<close> holds a time value in milliseconds, or \<open>NaN\<close> when the text it was
  built from does not parse. \<open>a > b\<close> on two dates compares the time values, and is false
  as soon as one of them is \<open>NaN\<close>.
\<close>

datatype js_date = InvalidDate | Date int

fun date_gt :: "js_date \<Rightarrow> js_date \<Rightarrow> bool" where
  "date_gt (Date a) (Date b) = (b < a)"
| "date_gt InvalidDate b = False"
| "date_gt (Date a) InvalidDate = False"

fun date_le :: "js_date \<Rightarrow> js_date \<Rightarrow> bool" where
  "date_le (Date a) (Date b) = (a \<le> b)"
| "date_le InvalidDate b = False"
| "date_le (Date a) InvalidDate = False"

text \<open>
  A variable that holds \<open>null\<close>, \<open>undefined\<close> or a string is a \<open>string option\<close>. The
  source tests such variables by truthiness: \<open>null\<close>, \<open>undefined\<close> and the empty string
  are falsy.
\<close>

fun truthy :: "string option \<Rightarrow> bool" where
  "truthy None = False"
| "truthy (Some v) = (v \<noteq> [])"

text \<open>\<open>hay.includes(needle)\<close>: the needle occurs in the hay as a contiguous run.\<close>

primrec str_includes :: "string \<Rightarrow> string \<Rightarrow> bool" where
  "str_includes [] needle = (needle = [])"
| "str_includes (c # cs) needle = (prefix needle (c # cs) \<or> str_includes cs needle)"

subsection \<open>Messages\<close>

text \<open>The object both connectors build and broadcast as \<open>chat message\<close>.\<close>

record chatMessage =
  msg_id :: string
  platform :: string
  user :: string
  msg_text :: string
  isSubscriber :: bool
  color :: "string option"

text \<open>
  The \<open>tags\<close> argument of the Twitch client's \<open>message\<close> callback. \<open>tags_username\<close> is
  the login name of the author; the handler does not read it.
\<close>

record twitch_tags =
  tags_id :: string
  tags_username :: string
  tags_display_name :: string
  tags_subscriber :: bool
  tags_mod :: bool
  tags_color :: "string option"

text \<open>
  One item of a \<open>liveChatMessages.list\<close> response; \<open>publishedAt\<close> is the date
  \<open>new Date(item.snippet.publishedAt)\<close> that the source builds from it.
\<close>

record youtube_item =
  item_id :: string
  displayName :: string
  displayMessage :: string
  isChatSponsor :: bool
  publishedAt :: js_date

text \<open>What the handlers do to their collaborators.\<close>

datatype effect =
    TwitchConnect
  | TwitchJoin string
  | TwitchPart string
  | YoutubeSearchList string
  | YoutubeVideosList string
  | YoutubeLiveChatMessagesList string
  | EmitChatMessage chatMessage
  | EmitErrorMessage string

subsection \<open>State\<close>

text \<open>
  The four variables of the source, and what the runtime holds: \<open>timers\<close> are the
  identifiers of the intervals that \<open>setInterval\<close> created and \<open>clearInterval\<close> has not
  cancelled, \<open>nextTimer\<close> is the next fresh identifier, and \<open>inflight\<close> are the live chats
  of the fetches that were sent and are not answered yet. A timer identifier is an object
  in the source, hence always truthy: \<open>youtubeInterval\<close> is falsy exactly when it is \<open>None\<close>.
\<close>

record state =
  twitchChannel :: "string option"
  youtubeLiveChatId :: "string option"
  youtubeInterval :: "nat option"
  lastYoutubeCheck :: "js_date option"
  timers :: "nat list"
  nextTimer :: nat
  inflight :: "string list"

definition init :: state where
  "init = \<lparr> twitchChannel = None, youtubeLiveChatId = None, youtubeInterval = None,
            lastYoutubeCheck = None, timers = [], nextTimer = 0, inflight = [] \<rparr>"

definition clearInterval :: "nat option \<Rightarrow> state \<Rightarrow> state" where
  "clearInterval h s = (case h of None \<Rightarrow> s | Some t \<Rightarrow> s\<lparr>timers := removeAll t (timers s)\<rparr>)"

definition setInterval :: "state \<Rightarrow> nat \<times> state" where
  "setInterval s =
     (nextTimer s, s\<lparr>timers := timers s @ [nextTimer s], nextTimer := Suc (nextTimer s)\<rparr>)"

subsection \<open>The Twitch message handler\<close>

definition twitch_chatMessage :: "twitch_tags \<Rightarrow> string \<Rightarrow> chatMessage" where
  "twitch_chatMessage tags message =
     \<lparr> msg_id = tags_id tags, platform = ''Twitch'', user = tags_display_name tags,
       msg_text = message, isSubscriber = (tags_subscriber tags \<or> tags_mod tags),
       color = tags_color tags \<rparr>"

definition on_message :: "string \<Rightarrow> twitch_tags \<Rightarrow> string \<Rightarrow> bool \<Rightarrow> effect list" where
  "on_message channel tags message self =
     (if self then [] else [EmitChatMessage (twitch_chatMessage tags message)])"

subsection \<open>The YouTube functions\<close>

text \<open>A call on the YouTube client resolves with a response or rejects.\<close>

datatype 'a response = Rejects | Resolves 'a

text \<open>
  An item of a \<open>videos.list\<close> response: \<open>liveStreamingDetails\<close> is absent (\<open>None\<close>) or an
  object whose \<open>activeLiveChatId\<close> is absent or a string.
\<close>

record video_item =
  liveStreamingDetails :: "string option option"

text \<open>
  \<open>getLiveChatId\<close>: the first argument is the channel, the next two are what
  \<open>search.list\<close> answers (the video identifiers of its items) and what \<open>videos.list\<close>
  answers. Reading a property of \<open>undefined\<close> throws, and lands in the \<open>catch\<close> branch as a
  rejected call does.
\<close>

definition not_found_notice :: string where
  "not_found_notice = ''Could not find an active YouTube live stream for that channel.''"

definition getLiveChatId ::
  "string \<Rightarrow> string list response \<Rightarrow> video_item list response \<Rightarrow> string option \<times> effect list" where
  "getLiveChatId youtubeChannelId search videos =
     (case search of
        Rejects \<Rightarrow> (None, [YoutubeSearchList youtubeChannelId, EmitErrorMessage not_found_notice])
      | Resolves items \<Rightarrow>
          (case items of
             [] \<Rightarrow> (None, [YoutubeSearchList youtubeChannelId])
           | liveVideoId # _ \<Rightarrow>
               (case videos of
                  Rejects \<Rightarrow>
                    (None, [YoutubeSearchList youtubeChannelId, YoutubeVideosList liveVideoId,
                            EmitErrorMessage not_found_notice])
                | Resolves [] \<Rightarrow>
                    (None, [YoutubeSearchList youtubeChannelId, YoutubeVideosList liveVideoId,
                            EmitErrorMessage not_found_notice])
                | Resolves (v # _) \<Rightarrow>
                    (case liveStreamingDetails v of
                       None \<Rightarrow>
                         (None, [YoutubeSearchList youtubeChannelId, YoutubeVideosList liveVideoId,
                                 EmitErrorMessage not_found_notice])
                     | Some activeLiveChatId \<Rightarrow>
                         (activeLiveChatId,
                          [YoutubeSearchList youtubeChannelId, YoutubeVideosList liveVideoId])))))"

text \<open>
  What \<open>liveChatMessages.list\<close> answers: the items, or an error that carries the message of
  the error response when there is one.
\<close>

datatype fetch_result = Items "youtube_item list" | Fails "string option"

definition youtube_chatMessage :: "youtube_item \<Rightarrow> chatMessage" where
  "youtube_chatMessage item =
     \<lparr> msg_id = item_id item, platform = ''YouTube'', user = displayName item,
       msg_text = displayMessage item, isSubscriber = isChatSponsor item, color = None \<rparr>"

text \<open>The test \<open>!lastYoutubeCheck || publishedAt > lastYoutubeCheck\<close>.\<close>

fun is_new :: "js_date option \<Rightarrow> youtube_item \<Rightarrow> bool" where
  "is_new None item = True"
| "is_new (Some w) item = date_gt (publishedAt item) w"

text \<open>The \<open>forEach\<close> loop over the fetched items.\<close>

primrec forEach_newMessages :: "js_date option \<Rightarrow> youtube_item list \<Rightarrow> effect list" where
  "forEach_newMessages w [] = []"
| "forEach_newMessages w (item # rest) =
     (if is_new w item then [EmitChatMessage (youtube_chatMessage item)] else [])
       @ forEach_newMessages w rest"

definition chat_ended :: "string option \<Rightarrow> bool" where
  "chat_ended resp =
     (case resp of None \<Rightarrow> False
      | Some m \<Rightarrow> str_includes m ''The live chat is no longer available'')"

text \<open>
  \<open>fetchYoutubeMessages\<close>, up to the \<open>await\<close>: the guard on \<open>youtubeLiveChatId\<close>. The result
  is the live chat that the fetch is sent for, or \<open>None\<close> when the function returns at the
  guard.
\<close>

definition fetchYoutubeMessages_request :: "state \<Rightarrow> string option" where
  "fetchYoutubeMessages_request s =
     (case youtubeLiveChatId s of
        None \<Rightarrow> None
      | Some chat \<Rightarrow> if chat = [] then None else Some chat)"

text \<open>
  \<open>fetchYoutubeMessages\<close>, after the \<open>await\<close>: the rest of the \<open>try\<close> block when the fetch
  resolves, the \<open>catch\<close> block when it rejects. Neither looks at \<open>youtubeLiveChatId\<close> again.
\<close>

definition fetchYoutubeMessages_response :: "fetch_result \<Rightarrow> state \<Rightarrow> state \<times> effect list" where
  "fetchYoutubeMessages_response result s =
     (case result of
        Items newMessages \<Rightarrow>
          if length newMessages > 0 then
            (s\<lparr>lastYoutubeCheck := Some (publishedAt (last newMessages))\<rparr>,
             forEach_newMessages (lastYoutubeCheck s) newMessages)
          else (s, [])
      | Fails resp \<Rightarrow>
          if chat_ended resp then
            ((clearInterval (youtubeInterval s) s)\<lparr>youtubeLiveChatId := None\<rparr>,
             [EmitErrorMessage ''YouTube Live Chat has ended.''])
          else (s, []))"

text \<open>
  One whole call of \<open>fetchYoutubeMessages\<close> whose fetch is answered before any other handler
  runs: the first part, the fetch, the second part.
\<close>

definition fetchYoutubeMessages :: "fetch_result \<Rightarrow> state \<Rightarrow> state \<times> effect list" where
  "fetchYoutubeMessages result s =
     (case fetchYoutubeMessages_request s of
        None \<Rightarrow> (s, [])
      | Some chat \<Rightarrow>
          (let (s', out) = fetchYoutubeMessages_response result s
           in (s', YoutubeLiveChatMessagesList chat # out)))"

subsection \<open>The socket handlers\<close>

text \<open>
  The arguments of \<open>start connection\<close> are its payload, the clock reading \<open>new Date()\<close>
  of the handler, and the answers of the two YouTube calls that \<open>getLiveChatId\<close> makes.
  The handler is two blocks in sequence, one for each source: \<open>start_twitch\<close> and
  \<open>start_youtube\<close>. The Twitch block goes on to \<open>join\<close> whether \<open>connect\<close> succeeded or
  not, so the answer of \<open>connect\<close> is no argument.
\<close>

record start_data =
  data_twitchChannel :: "string option"
  data_youtubeChannelId :: "string option"

definition start_twitch :: "start_data \<Rightarrow> state \<Rightarrow> state \<times> effect list" where
  "start_twitch data s =
     (case data_twitchChannel data of
        None \<Rightarrow> (s, [])
      | Some c \<Rightarrow>
          if c = [] then (s, [])
          else (s\<lparr>twitchChannel := Some c\<rparr>, [TwitchConnect, TwitchJoin c]))"

definition start_youtube ::
  "start_data \<Rightarrow> int \<Rightarrow> string list response \<Rightarrow> video_item list response \<Rightarrow> state
     \<Rightarrow> state \<times> effect list" where
  "start_youtube data now search videos s =
     (case data_youtubeChannelId data of
        None \<Rightarrow> (s, [])
      | Some c \<Rightarrow>
          if c = [] then (s, [])
          else
            (let s1 = s\<lparr>lastYoutubeCheck := Some (Date now)\<rparr>;
                 (chat, out) = getLiveChatId c search videos;
                 s2 = s1\<lparr>youtubeLiveChatId := chat\<rparr>
             in if truthy chat then
                  (let (t, s3) = setInterval s2 in (s3\<lparr>youtubeInterval := Some t\<rparr>, out))
                else (s2, out)))"

definition start_connection ::
  "start_data \<Rightarrow> int \<Rightarrow> string list response \<Rightarrow> video_item list response \<Rightarrow> state
     \<Rightarrow> state \<times> effect list" where
  "start_connection data now search videos s =
     (let (s1, out1) = start_twitch data s;
          (s2, out2) = start_youtube data now search videos s1
      in (s2, out1 @ out2))"

text \<open>
  \<open>disconnect\<close>: the argument is the value of \<open>io.engine.clientsCount\<close> it reads. The
  clean-up is again one block for each source.
\<close>

definition disconnect_twitch :: "state \<Rightarrow> state \<times> effect list" where
  "disconnect_twitch s =
     (case twitchChannel s of
        None \<Rightarrow> (s, [])
      | Some c \<Rightarrow> if c = [] then (s, []) else (s\<lparr>twitchChannel := None\<rparr>, [TwitchPart c]))"

definition disconnect_youtube :: "state \<Rightarrow> state" where
  "disconnect_youtube s =
     (case youtubeInterval s of
        None \<Rightarrow> s
      | Some t \<Rightarrow> (clearInterval (Some t) s)\<lparr>youtubeInterval := None, youtubeLiveChatId := None\<rparr>)"

definition disconnect :: "nat \<Rightarrow> state \<Rightarrow> state \<times> effect list" where
  "disconnect clientsCount s =
     (if clientsCount = 0 then
        (let (s1, out) = disconnect_twitch s in (disconnect_youtube s1, out))
      else (s, []))"

subsection \<open>Runs\<close>

text \<open>
  The events the server reacts to. A cancelled interval does not fire, and an answer
  needs a fetch in flight.
  \<^item> \<open>Tick t r\<close>: the interval \<open>t\<close> fires and the fetch of the callback is answered with
    \<open>r\<close> before any other handler runs.
  \<^item> \<open>Fire t\<close>: the interval \<open>t\<close> fires and the fetch of the callback stays in flight.
  \<^item> \<open>Answer r\<close>: a fetch in flight is answered with \<open>r\<close>. The second part of the
    callback does not depend on which fetch it was, so the first one is taken.
\<close>

datatype event =
    StartConnection start_data int "string list response" "video_item list response"
  | Disconnect nat
  | Tick nat fetch_result
  | Fire nat
  | Answer fetch_result
  | TwitchMessage string twitch_tags string bool

fun step :: "event \<Rightarrow> state \<Rightarrow> state \<times> effect list" where
  "step (StartConnection data now search videos) s = start_connection data now search videos s"
| "step (Disconnect clientsCount) s = disconnect clientsCount s"
| "step (Tick t r) s = (if t \<in> set (timers s) then fetchYoutubeMessages r s else (s, []))"
| "step (Fire t) s =
     (if t \<in> set (timers s) then
        (case fetchYoutubeMessages_request s of
           None \<Rightarrow> (s, [])
         | Some chat \<Rightarrow> (s\<lparr>inflight := inflight s @ [chat]\<rparr>, [YoutubeLiveChatMessagesList chat]))
      else (s, []))"
| "step (Answer r) s =
     (case inflight s of
        [] \<Rightarrow> (s, [])
      | chat # rest \<Rightarrow> fetchYoutubeMessages_response r (s\<lparr>inflight := rest\<rparr>))"
| "step (TwitchMessage channel tags message self) s = (s, on_message channel tags message self)"

fun run :: "event list \<Rightarrow> state \<Rightarrow> state \<times> effect list" where
  "run [] s = (s, [])"
| "run (e # es) s =
     (let (s1, out1) = step e s; (s2, out2) = run es s1 in (s2, out1 @ out2))"

text \<open>A start request names a pull channel when its \<open>youtubeChannelId\<close> is truthy.\<close>

fun names_pull :: "event \<Rightarrow> bool" where
  "names_pull (StartConnection data now search videos) = truthy (data_youtubeChannelId data)"
| "names_pull e = False"

subsection \<open>Observations on a list of effects\<close>

text \<open>The chat messages broadcast, the \<open>error message\<close> notices broadcast, the live chats
  fetched, and the calls on the Twitch client, each in the order of the effects.\<close>

primrec chat_messages :: "effect list \<Rightarrow> chatMessage list" where
  "chat_messages [] = []"
| "chat_messages (e # es) =
     (case e of EmitChatMessage m \<Rightarrow> m # chat_messages es | _ \<Rightarrow> chat_messages es)"

primrec error_messages :: "effect list \<Rightarrow> string list" where
  "error_messages [] = []"
| "error_messages (e # es) =
     (case e of EmitErrorMessage m \<Rightarrow> m # error_messages es | _ \<Rightarrow> error_messages es)"

primrec fetches :: "effect list \<Rightarrow> string list" where
  "fetches [] = []"
| "fetches (e # es) =
     (case e of YoutubeLiveChatMessagesList c \<Rightarrow> c # fetches es | _ \<Rightarrow> fetches es)"


subsection \<open>Predicates on states, batches and events\<close>

text \<open>
  What holds of the variables in every state the handlers can produce from \<open>init\<close>: a
  usable live chat identifier comes with a watermark and a polling interval, and the
  Twitch channel is never the empty string.
\<close>

definition attached_inv :: "state \<Rightarrow> bool" where
  "attached_inv s =
     ((truthy (youtubeLiveChatId s) \<longrightarrow>
         lastYoutubeCheck s \<noteq> None \<and> youtubeInterval s \<noteq> None)
      \<and> twitchChannel s \<noteq> Some [])"

text \<open>A batch ordered by publish time ascending, every publish time a valid date.\<close>

definition ascending :: "youtube_item list \<Rightarrow> bool" where
  "ascending batch = sorted_wrt (\<lambda>a b. date_le (publishedAt a) (publishedAt b)) batch"

text \<open>The author of a Twitch message is the identity the client is connected with.\<close>

definition authored_by_identity :: "string \<Rightarrow> twitch_tags \<Rightarrow> bool" where
  "authored_by_identity username tags = (tags_username tags = username)"


text \<open>The batch that the event hands to the second part of the callback, if any.\<close>

fun polled :: "event \<Rightarrow> state \<Rightarrow> youtube_item list option" where
  "polled (Tick t (Items batch)) s =
     (if t \<in> set (timers s) \<and> truthy (youtubeLiveChatId s) then Some batch else None)"
| "polled (Answer (Items batch)) s = (if inflight s = [] then None else Some batch)"
| "polled e s = None"

text \<open>
  The clock of the event does not read earlier than \<open>T\<close>: only a start request that names a
  pull channel reads the clock.
\<close>

fun clock_not_before :: "int \<Rightarrow> event \<Rightarrow> bool" where
  "clock_not_before T (StartConnection data now search videos) =
     (truthy (data_youtubeChannelId data) \<longrightarrow> T \<le> now)"
| "clock_not_before T e = True"

text \<open>
  The feed returns no backlog item late, along the events \<open>evs\<close> from state \<open>s\<close>: no item
  published at or before \<open>T\<close> comes in a batch when it is later than the last item of \<open>prev\<close>,
  the latest non-empty batch answered before it. \<open>prev\<close> is \<open>None\<close> as long as no non-empty
  batch was answered since the latest start request that names a pull channel.
\<close>

fun on_time :: "int \<Rightarrow> js_date option \<Rightarrow> event list \<Rightarrow> state \<Rightarrow> bool" where
  "on_time T prev [] s = True"
| "on_time T prev (e # es) s =
     (if names_pull e then on_time T None es (fst (step e s))
      else
        (case polled e s of
           None \<Rightarrow> on_time T prev es (fst (step e s))
         | Some batch \<Rightarrow>
             (\<forall>x\<in>set batch. date_le (publishedAt x) (Date T) \<longrightarrow>
                (case prev of None \<Rightarrow> True | Some l \<Rightarrow> \<not> date_gt (publishedAt x) l))
             \<and> on_time T (if batch = [] then prev else Some (publishedAt (last batch))) es
                 (fst (step e s))))"

text \<open>
  The watermark \<open>w\<close> agrees with \<open>prev\<close>: it is the last publish time of the latest
  non-empty batch, or the clock of a start request that did not read earlier than \<open>T\<close>.
\<close>

definition watermark_from :: "int \<Rightarrow> js_date option \<Rightarrow> js_date \<Rightarrow> bool" where
  "watermark_from T prev w =
     (case prev of
        Some l \<Rightarrow> w = l
      | None \<Rightarrow> (case w of InvalidDate \<Rightarrow> False | Date t \<Rightarrow> T \<le> t))"

subsection \<open>Concrete inputs\<close>

text \<open>
  A start request for Twitch channel \<open>abc\<close> and YouTube channel \<open>UC1\<close> at clock reading
  \<open>now\<close>, for which the search finds \<open>video1\<close> with live chat \<open>chat1\<close>; a start request for
  the Twitch channel alone; a fetched item published at \<open>t\<close>; the tags of a Twitch viewer
  and of a message written under the login \<open>bot\<close>; the error of an ended live chat.
\<close>

definition live_start :: "int \<Rightarrow> event" where
  "live_start now =
     StartConnection \<lparr> data_twitchChannel = Some ''abc'', data_youtubeChannelId = Some ''UC1'' \<rparr>
       now (Resolves [''video1''])
       (Resolves [\<lparr> liveStreamingDetails = Some (Some ''chat1'') \<rparr>])"

definition push_start :: event where
  "push_start =
     StartConnection \<lparr> data_twitchChannel = Some ''abc'', data_youtubeChannelId = None \<rparr>
       0 Rejects Rejects"

definition item_at :: "int \<Rightarrow> youtube_item" where
  "item_at t = \<lparr> item_id = ''m'', displayName = ''ann'', displayMessage = ''hello'',
                 isChatSponsor = False, publishedAt = Date t \<rparr>"

definition viewer_tags :: twitch_tags where
  "viewer_tags = \<lparr> tags_id = ''t1'', tags_username = ''bob'', tags_display_name = ''Bob'',
                   tags_subscriber = False, tags_mod = True, tags_color = None \<rparr>"

definition bot_tags :: twitch_tags where
  "bot_tags = \<lparr> tags_id = ''t2'', tags_username = ''bot'', tags_display_name = ''Bot'',
                tags_subscriber = False, tags_mod = False, tags_color = None \<rparr>"

definition ended :: fetch_result where
  "ended = Fails (Some ''The live chat is no longer available.'')"

lemmas handler_defs =
  init_def live_start_def push_start_def item_at_def start_connection_def start_twitch_def
  start_youtube_def getLiveChatId_def setInterval_def clearInterval_def
  fetchYoutubeMessages_def fetchYoutubeMessages_request_def fetchYoutubeMessages_response_def
  ended_def disconnect_def disconnect_twitch_def disconnect_youtube_def
  on_message_def chat_ended_def youtube_chatMessage_def twitch_chatMessage_def

section \<open>Properties\<close>

subsection \<open>Effects of the parts\<close>

lemma chat_messages_append: "chat_messages (xs @ ys) = chat_messages xs @ chat_messages ys"
  by (induction xs) (auto split: effect.splits)




text \<open>The loop broadcasts the items that pass the test, in the order of the batch.\<close>

lemma chat_messages_forEach:
  "chat_messages (forEach_newMessages w items) = map youtube_chatMessage (filter (is_new w) items)"
  by (induction items) auto






lemma start_sets_watermark:
  assumes "truthy (data_youtubeChannelId data)"
  shows "lastYoutubeCheck (fst (start_connection data now search videos s)) = Some (Date now)"
  using assms
  by (cases "data_youtubeChannelId data")
     (auto simp: start_connection_def start_youtube_def setInterval_def Let_def split_beta)

text \<open>A start request that names no pull channel is the Twitch block alone.\<close>

lemma start_without_pull:
  assumes "\<not> truthy (data_youtubeChannelId data)"
  shows "start_connection data now search videos s =
           (fst (start_twitch data s), snd (start_twitch data s))"
  using assms
  by (cases "data_youtubeChannelId data")
     (auto simp: start_connection_def start_youtube_def split_beta)

lemma start_twitch_frame:
  "youtubeLiveChatId (fst (start_twitch data s)) = youtubeLiveChatId s"
  "lastYoutubeCheck (fst (start_twitch data s)) = lastYoutubeCheck s"
  "inflight (fst (start_twitch data s)) = inflight s"
  "chat_messages (snd (start_twitch data s)) = []"
  "error_messages (snd (start_twitch data s)) = []"
  "fetches (snd (start_twitch data s)) = []"
  by (auto simp: start_twitch_def split: option.splits)

lemma disconnect_frame:
  "lastYoutubeCheck (fst (disconnect n s)) = lastYoutubeCheck s"
  "inflight (fst (disconnect n s)) = inflight s"
  "chat_messages (snd (disconnect n s)) = []"
  "error_messages (snd (disconnect n s)) = []"
  "fetches (snd (disconnect n s)) = []"
  by (auto simp: disconnect_def disconnect_twitch_def disconnect_youtube_def clearInterval_def
      split: option.splits)

subsection \<open>One poll\<close>

lemma request_truthy:
  "fetchYoutubeMessages_request s = (if truthy (youtubeLiveChatId s) then youtubeLiveChatId s else None)"
  by (auto simp: fetchYoutubeMessages_request_def split: option.splits)

lemma response_watermark:
  "lastYoutubeCheck (fst (fetchYoutubeMessages_response r s)) =
     (case r of Items batch \<Rightarrow>
          if batch = [] then lastYoutubeCheck s else Some (publishedAt (last batch))
      | Fails e \<Rightarrow> lastYoutubeCheck s)"
  by (auto simp: fetchYoutubeMessages_response_def clearInterval_def
      split: option.splits fetch_result.splits)

lemma response_chat_messages:
  "chat_messages (snd (fetchYoutubeMessages_response r s)) =
     (case r of Items batch \<Rightarrow>
          map youtube_chatMessage (filter (is_new (lastYoutubeCheck s)) batch)
      | Fails e \<Rightarrow> [])"
  by (auto simp: fetchYoutubeMessages_response_def chat_messages_forEach
      split: fetch_result.splits)






lemma fetch_watermark:
  "lastYoutubeCheck (fst (fetchYoutubeMessages r s)) =
     (if truthy (youtubeLiveChatId s) then
        (case r of Items batch \<Rightarrow>
             if batch = [] then lastYoutubeCheck s else Some (publishedAt (last batch))
         | Fails e \<Rightarrow> lastYoutubeCheck s)
      else lastYoutubeCheck s)"
  by (cases "youtubeLiveChatId s")
     (simp_all add: fetchYoutubeMessages_def request_truthy split_beta response_watermark)

lemma fetch_chat_messages:
  "chat_messages (snd (fetchYoutubeMessages r s)) =
     (if truthy (youtubeLiveChatId s) then
        (case r of Items batch \<Rightarrow>
             map youtube_chatMessage (filter (is_new (lastYoutubeCheck s)) batch)
         | Fails e \<Rightarrow> [])
      else [])"
  by (cases "youtubeLiveChatId s")
     (simp_all add: fetchYoutubeMessages_def request_truthy split_beta response_chat_messages)

subsection \<open>Dates and ascending batches\<close>

lemma sorted_wrt_last: "sorted_wrt P xs \<Longrightarrow> x \<in> set xs \<Longrightarrow> x = last xs \<or> P x (last xs)"
  by (induction xs) auto

lemma date_gt_le_trans: "date_gt a w \<Longrightarrow> date_le a b \<Longrightarrow> date_gt b w"
  by (cases a; cases b; cases w) auto

lemma date_le_trans: "date_le w a \<Longrightarrow> date_le a b \<Longrightarrow> date_le w b"
  by (cases a; cases b; cases w) auto

lemma date_le_refl_left: "date_le w a \<Longrightarrow> date_le w w"
  by (cases a; cases w) auto

lemma ascending_last_gt:
  assumes "ascending batch" and "item \<in> set batch" and "date_gt (publishedAt item) w"
  shows "date_gt (publishedAt (last batch)) w"
  using sorted_wrt_last [OF assms(1) [unfolded ascending_def] assms(2)] assms(3)
  by (auto dest: date_gt_le_trans)

lemma ascending_last_le:
  assumes "ascending batch" and "item \<in> set batch" and "date_le w (publishedAt item)"
  shows "date_le w (publishedAt (last batch))"
  using sorted_wrt_last [OF assms(1) [unfolded ascending_def] assms(2)] assms(3)
  by (auto dest: date_le_trans)

subsection \<open>The invariant of the variables\<close>

lemma attached_inv_init: "attached_inv init"
  by (simp add: attached_inv_def init_def)

lemma attached_inv_inflight: "attached_inv (s\<lparr>inflight := xs\<rparr>) = attached_inv s"
  by (simp add: attached_inv_def)

lemma attached_inv_response:
  "attached_inv s \<Longrightarrow> attached_inv (fst (fetchYoutubeMessages_response r s))"
  by (auto simp: attached_inv_def fetchYoutubeMessages_response_def clearInterval_def
      split: option.splits fetch_result.splits)

lemma attached_inv_fetch: "attached_inv s \<Longrightarrow> attached_inv (fst (fetchYoutubeMessages r s))"
  by (cases "fetchYoutubeMessages_request s")
     (simp_all add: fetchYoutubeMessages_def split_beta attached_inv_response)

lemma attached_inv_start:
  "attached_inv s \<Longrightarrow> attached_inv (fst (start_connection data now search videos s))"
  by (auto simp: attached_inv_def start_connection_def start_twitch_def start_youtube_def
      setInterval_def Let_def split: option.splits prod.splits)

lemma attached_inv_disconnect: "attached_inv s \<Longrightarrow> attached_inv (fst (disconnect n s))"
  by (auto simp: attached_inv_def disconnect_def disconnect_twitch_def disconnect_youtube_def
      clearInterval_def split: option.splits prod.splits)

lemma attached_inv_step: "attached_inv s \<Longrightarrow> attached_inv (fst (step e s))"
proof (cases e)
  case (Fire t)
  then show "attached_inv s \<Longrightarrow> ?thesis"
    by (cases "fetchYoutubeMessages_request s") (simp_all add: attached_inv_inflight)
next
  case (Answer r)
  then show "attached_inv s \<Longrightarrow> ?thesis"
    by (cases "inflight s") (simp_all add: attached_inv_response attached_inv_inflight)
qed (simp_all add: attached_inv_fetch attached_inv_start attached_inv_disconnect)

lemma attached_inv_run: "attached_inv s \<Longrightarrow> attached_inv (fst (run es s))"
proof (induction es arbitrary: s)
  case Nil
  then show ?case by simp
next
  case (Cons e es)
  from Cons.prems have "attached_inv (fst (step e s))" by (rule attached_inv_step)
  then have "attached_inv (fst (run es (fst (step e s))))" by (rule Cons.IH)
  then show ?case by (simp add: split_beta)
qed

subsection \<open>Runs without a live chat\<close>



subsection \<open>The watermark along a run\<close>

lemma polled_chat_messages:
  assumes "polled e s = Some batch"
  shows "chat_messages (snd (step e s)) =
           map youtube_chatMessage (filter (is_new (lastYoutubeCheck s)) batch)"
proof (cases e)
  case (Tick t r)
  with assms show ?thesis
    by (cases r) (auto simp: fetch_chat_messages split: if_splits)
next
  case (Answer r)
  with assms show ?thesis
    by (cases r; cases "inflight s") (auto simp: response_chat_messages split: if_splits)
qed (use assms in simp_all)

lemma step_watermark:
  assumes "\<not> names_pull e"
  shows "lastYoutubeCheck (fst (step e s)) =
           (case polled e s of
              None \<Rightarrow> lastYoutubeCheck s
            | Some batch \<Rightarrow>
                if batch = [] then lastYoutubeCheck s else Some (publishedAt (last batch)))"
proof (cases e)
  case (StartConnection data now search videos)
  with assms show ?thesis
    by (simp add: start_without_pull start_twitch_frame)
next
  case (Disconnect n)
  then show ?thesis by (simp add: disconnect_frame)
next
  case (Tick t r)
  then show ?thesis
    by (cases r) (simp_all add: fetch_watermark)
next
  case (Fire t)
  then show ?thesis
    by (cases "fetchYoutubeMessages_request s") simp_all
next
  case (Answer r)
  then show ?thesis
    by (cases r; cases "inflight s") (simp_all add: response_watermark)
next
  case (TwitchMessage channel tags message self)
  then show ?thesis by simp
qed

lemma pull_start_watermark:
  assumes "names_pull e" and "clock_not_before T e"
  shows "\<exists>t. lastYoutubeCheck (fst (step e s)) = Some (Date t) \<and> T \<le> t"
proof (cases e)
  case (StartConnection data now search videos)
  with assms show ?thesis by (simp add: start_sets_watermark)
qed (use assms in simp_all)

lemma run_on_time:
  assumes "\<forall>e\<in>set evs. clock_not_before T e" and "lastYoutubeCheck s = Some w"
    and "watermark_from T prev w" and "on_time T prev (evs @ rest) s"
  shows "\<exists>w' prev'. lastYoutubeCheck (fst (run evs s)) = Some w' \<and> watermark_from T prev' w' \<and>
           on_time T prev' rest (fst (run evs s))"
  using assms
proof (induction evs arbitrary: s w prev)
  case Nil
  then show ?case by auto
next
  case (Cons e evs)
  from Cons.prems(1) have e: "clock_not_before T e" and evs: "\<forall>e\<in>set evs. clock_not_before T e"
    by simp_all
  have "\<exists>w1 prev1. lastYoutubeCheck (fst (step e s)) = Some w1 \<and> watermark_from T prev1 w1 \<and>
          on_time T prev1 (evs @ rest) (fst (step e s))"
  proof (cases "names_pull e")
    case True
    with e obtain t where "lastYoutubeCheck (fst (step e s)) = Some (Date t)" and "T \<le> t"
      using pull_start_watermark by blast
    moreover from True Cons.prems(4) have "on_time T None (evs @ rest) (fst (step e s))"
      by simp
    ultimately show ?thesis
      by (intro exI [of _ "Date t"] exI [of _ None]) (simp add: watermark_from_def)
  next
    case False
    show ?thesis
    proof (cases "polled e s")
      case None
      with False Cons.prems(2) have "lastYoutubeCheck (fst (step e s)) = Some w"
        by (simp add: step_watermark)
      moreover from None False Cons.prems(4) have "on_time T prev (evs @ rest) (fst (step e s))"
        by simp
      ultimately show ?thesis using Cons.prems(3) by blast
    next
      case (Some batch)
      show ?thesis
      proof (cases "batch = []")
        case True
        with Some False Cons.prems(2) have "lastYoutubeCheck (fst (step e s)) = Some w"
          by (simp add: step_watermark)
        moreover from True Some False Cons.prems(4)
        have "on_time T prev (evs @ rest) (fst (step e s))"
          by simp
        ultimately show ?thesis using Cons.prems(3) by blast
      next
        case nonempty: False
        with Some False
        have "lastYoutubeCheck (fst (step e s)) = Some (publishedAt (last batch))"
          by (simp add: step_watermark)
        moreover from nonempty Some False Cons.prems(4)
        have "on_time T (Some (publishedAt (last batch))) (evs @ rest) (fst (step e s))"
          by simp
        ultimately show ?thesis
          by (intro exI [of _ "publishedAt (last batch)"]
              exI [of _ "Some (publishedAt (last batch))"]) (simp add: watermark_from_def)
      qed
    qed
  qed
  then obtain w1 prev1 where "lastYoutubeCheck (fst (step e s)) = Some w1"
    and "watermark_from T prev1 w1" and "on_time T prev1 (evs @ rest) (fst (step e s))"
    by blast
  with evs have "\<exists>w' prev'. lastYoutubeCheck (fst (run evs (fst (step e s)))) = Some w' \<and>
      watermark_from T prev' w' \<and> on_time T prev' rest (fst (run evs (fst (step e s))))"
    by (intro Cons.IH) auto
  then show ?case by (simp add: split_beta)
qed

section \<open>The claims\<close>

subsection \<open>C1: only items newer than the watermark are forwarded\<close>

text \<open>
  C1. In every state that a sequence of events produces from the initial state and in which
  a live chat is attached, a watermark is held, and a poll that answers \<open>batch\<close> broadcasts
  exactly the items of the batch whose publish time is strictly greater than that
  watermark, in the order of the batch. No item published at or before the watermark held
  before the poll is forwarded.
\<close>

theorem poll_forwards_only_newer:
  assumes "run evs init = (s, out)" and "truthy (youtubeLiveChatId s)"
  shows "\<exists>w. lastYoutubeCheck s = Some w \<and>
           chat_messages (snd (fetchYoutubeMessages (Items batch) s)) =
             map youtube_chatMessage (filter (\<lambda>item. date_gt (publishedAt item) w) batch)"
proof -
  have "attached_inv s" using attached_inv_run [OF attached_inv_init, of evs] assms(1) by simp
  with assms(2) obtain w where w: "lastYoutubeCheck s = Some w"
    by (auto simp: attached_inv_def)
  have "is_new (Some w) = (\<lambda>item. date_gt (publishedAt item) w)"
    by (rule ext) simp
  with w assms(2) have "chat_messages (snd (fetchYoutubeMessages (Items batch) s)) =
      map youtube_chatMessage (filter (\<lambda>item. date_gt (publishedAt item) w) batch)"
    by (simp add: fetch_chat_messages)
  with w show ?thesis by blast
qed

text \<open>
  After a start request at time 100, a poll that answers items published at 100 and at 200
  forwards the second one only.
\<close>

theorem poll_forwards_only_newer_witness:
  "truthy (youtubeLiveChatId (fst (run [live_start 100] init))) \<and>
   chat_messages (snd (fetchYoutubeMessages (Items [item_at 100, item_at 200])
       (fst (run [live_start 100] init)))) = [youtube_chatMessage (item_at 200)]"
  using poll_forwards_only_newer [of "[live_start 100]" "fst (run [live_start 100] init)"
      "snd (run [live_start 100] init)" "[item_at 100, item_at 200]"]
  by (simp add: handler_defs)

subsection \<open>C2: the watermark after a non-empty batch\<close>

text \<open>
  C2, as the source has it. A poll on an attached live chat that answers a non-empty batch
  sets the watermark to the publish time of the last item of the batch, whatever was
  filtered. The watermark moves strictly forward when the batch is ascending and at least
  one of its items was forwarded; it need not on other non-empty polls.
\<close>

theorem watermark_set_to_last:
  assumes "truthy (youtubeLiveChatId s)" and "batch \<noteq> []"
  shows "lastYoutubeCheck (fst (fetchYoutubeMessages (Items batch) s)) =
           Some (publishedAt (last batch)) \<and>
         (\<forall>w. lastYoutubeCheck s = Some w \<longrightarrow> ascending batch \<longrightarrow>
              chat_messages (snd (fetchYoutubeMessages (Items batch) s)) \<noteq> [] \<longrightarrow>
              date_gt (publishedAt (last batch)) w)"
proof (intro conjI allI impI)
  show "lastYoutubeCheck (fst (fetchYoutubeMessages (Items batch) s)) =
          Some (publishedAt (last batch))"
    using assms by (simp add: fetch_watermark)
next
  fix w
  assume w: "lastYoutubeCheck s = Some w" and asc: "ascending batch"
    and fw: "chat_messages (snd (fetchYoutubeMessages (Items batch) s)) \<noteq> []"
  from fw w assms(1) have "filter (is_new (Some w)) batch \<noteq> []"
    by (simp add: fetch_chat_messages)
  then obtain item where "item \<in> set batch" and "date_gt (publishedAt item) w"
    by (auto simp: filter_empty_conv)
  with asc show "date_gt (publishedAt (last batch)) w"
    by (rule ascending_last_gt)
qed

text \<open>
  Watermark 5, batch published at 10, 20, 30: all three are forwarded and the watermark
  becomes 30, which is later than 5.
\<close>

theorem watermark_set_to_last_witness:
  "(let s = fst (run [live_start 5] init);
        batch = [item_at 10, item_at 20, item_at 30]
    in truthy (youtubeLiveChatId s) \<and> batch \<noteq> [] \<and> ascending batch \<and>
       lastYoutubeCheck s = Some (Date 5) \<and>
       chat_messages (snd (fetchYoutubeMessages (Items batch) s)) \<noteq> [] \<and>
       lastYoutubeCheck (fst (fetchYoutubeMessages (Items batch) s)) = Some (Date 30) \<and>
       date_gt (publishedAt (last batch)) (Date 5))"
  using watermark_set_to_last [of "fst (run [live_start 5] init)"
      "[item_at 10, item_at 20, item_at 30]"]
  by (simp add: handler_defs ascending_def)

text \<open>
  The watermark does not move strictly forward on every non-empty poll: when a second poll
  answers the same batch as the first (nothing was posted in between), the watermark is 30
  before it and 30 after it.
\<close>

theorem watermark_strictly_forward_counterexample:
  "lastYoutubeCheck (fst (run [live_start 5,
       Tick 0 (Items [item_at 10, item_at 20, item_at 30])] init)) = Some (Date 30) \<and>
   lastYoutubeCheck (fst (run [live_start 5,
       Tick 0 (Items [item_at 10, item_at 20, item_at 30]),
       Tick 0 (Items [item_at 10, item_at 20, item_at 30])] init)) = Some (Date 30) \<and>
   \<not> date_gt (Date 30) (Date 30)"
  by (simp add: handler_defs)

subsection \<open>C3: the watermark across polls\<close>

text \<open>
  C3, as the source has it. A poll that fails or answers an empty batch leaves the
  watermark as it is. A poll that answers an ascending batch holding at least one item
  published at or after the watermark leaves a watermark that is not earlier than the one
  before. Nothing is promised for other batches: the watermark is assigned, not maximised.
\<close>

theorem watermark_not_backward:
  assumes "lastYoutubeCheck s = Some w"
  shows "(r = Items [] \<or> (\<exists>e. r = Fails e) \<longrightarrow>
            lastYoutubeCheck (fst (fetchYoutubeMessages r s)) = Some w) \<and>
         (\<forall>batch. r = Items batch \<longrightarrow> ascending batch \<longrightarrow>
            (\<exists>item\<in>set batch. date_le w (publishedAt item)) \<longrightarrow>
            (\<exists>w'. lastYoutubeCheck (fst (fetchYoutubeMessages r s)) = Some w' \<and> date_le w w'))"
proof (intro conjI allI impI)
  assume "r = Items [] \<or> (\<exists>e. r = Fails e)"
  then show "lastYoutubeCheck (fst (fetchYoutubeMessages r s)) = Some w"
    using assms by (auto simp: fetch_watermark)
next
  fix batch
  assume r: "r = Items batch" and asc: "ascending batch"
    and ov: "\<exists>item\<in>set batch. date_le w (publishedAt item)"
  from ov obtain item where item: "item \<in> set batch" "date_le w (publishedAt item)"
    by blast
  from asc item have "date_le w (publishedAt (last batch))"
    by (rule ascending_last_le)
  moreover from item have "date_le w w" by (auto dest: date_le_refl_left)
  moreover from item have "batch \<noteq> []" by auto
  ultimately show "\<exists>w'. lastYoutubeCheck (fst (fetchYoutubeMessages r s)) = Some w' \<and> date_le w w'"
    using assms r by (simp add: fetch_watermark)
qed

text \<open>
  Watermark 30: an empty batch and a failed fetch keep it, the overlapping batch published
  at 20, 30, 40 moves it to 40.
\<close>

theorem watermark_not_backward_witness:
  "(let s = fst (run [live_start 5, Tick 0 (Items [item_at 10, item_at 20, item_at 30])] init);
        batch = [item_at 20, item_at 30, item_at 40]
    in lastYoutubeCheck s = Some (Date 30) \<and> ascending batch \<and>
       (\<exists>item\<in>set batch. date_le (Date 30) (publishedAt item)) \<and>
       lastYoutubeCheck (fst (fetchYoutubeMessages (Items []) s)) = Some (Date 30) \<and>
       lastYoutubeCheck (fst (fetchYoutubeMessages (Fails None) s)) = Some (Date 30) \<and>
       lastYoutubeCheck (fst (fetchYoutubeMessages (Items batch) s)) = Some (Date 40) \<and>
       date_le (Date 30) (Date 40))"
  using watermark_not_backward
      [of "fst (run [live_start 5, Tick 0 (Items [item_at 10, item_at 20, item_at 30])] init)"
        "Date 30" "Items []"]
    watermark_not_backward
      [of "fst (run [live_start 5, Tick 0 (Items [item_at 10, item_at 20, item_at 30])] init)"
        "Date 30" "Fails None"]
    watermark_not_backward
      [of "fst (run [live_start 5, Tick 0 (Items [item_at 10, item_at 20, item_at 30])] init)"
        "Date 30" "Items [item_at 20, item_at 30, item_at 40]"]
  by (simp add: handler_defs ascending_def)

text \<open>
  The watermark can move backward: a start request at time 100 sets it to 100, and a first
  poll that answers one item of the backlog, published at 10, sets it to 10.
\<close>

theorem watermark_monotone_counterexample:
  "lastYoutubeCheck (fst (run [live_start 100] init)) = Some (Date 100) \<and>
   lastYoutubeCheck (fst (run [live_start 100, Tick 0 (Items [item_at 10])] init)) = Some (Date 10) \<and>
   \<not> date_le (Date 100) (Date 10)"
  by (simp add: handler_defs)

subsection \<open>C4: self-authored Twitch messages\<close>

text \<open>
  C4, as the source has it. The handler tests the \<open>self\<close> flag that the Twitch client
  passes and nothing else. A message delivered with the flag set leaves the state as it is
  and broadcasts nothing. A message delivered with the flag unset is broadcast once,
  whoever wrote it, also when its author is the connected identity: the handler compares
  no author with no identity.
\<close>

theorem self_flag_decides:
  "step (TwitchMessage channel tags message self) s =
     (s, if self then [] else [EmitChatMessage (twitch_chatMessage tags message)]) \<and>
   (authored_by_identity username tags \<and> \<not> self \<longrightarrow>
      chat_messages (snd (step (TwitchMessage channel tags message self) s)) =
        [twitch_chatMessage tags message])"
  by (simp add: on_message_def)

text \<open>
  The message of a viewer is suppressed when flagged and broadcast when not; the message
  written under the login \<open>bot\<close> and not flagged is broadcast while \<open>bot\<close> is the connected
  identity.
\<close>

theorem self_flag_decides_witness:
  "step (TwitchMessage ''abc'' viewer_tags ''hi'' True) init = (init, []) \<and>
   step (TwitchMessage ''abc'' viewer_tags ''hi'' False) init =
     (init, [EmitChatMessage (twitch_chatMessage viewer_tags ''hi'')]) \<and>
   authored_by_identity ''bot'' bot_tags \<and>
   chat_messages (snd (step (TwitchMessage ''abc'' bot_tags ''hi'' False) init)) =
     [twitch_chatMessage bot_tags ''hi'']"
  using self_flag_decides [of "''abc''" viewer_tags "''hi''" True init "''bot''"]
    self_flag_decides [of "''abc''" viewer_tags "''hi''" False init "''bot''"]
    self_flag_decides [of "''abc''" bot_tags "''hi''" False init "''bot''"]
  by (simp add: authored_by_identity_def bot_tags_def)

text \<open>
  A message whose author is the connected identity is forwarded when the client delivers
  it with the flag unset: one chat message is broadcast for it.
\<close>

theorem self_authored_forwarded_counterexample:
  "authored_by_identity ''bot'' bot_tags \<and>
   snd (step (TwitchMessage ''abc'' bot_tags ''hi'' False) init) =
     [EmitChatMessage
        \<lparr> msg_id = ''t2'', platform = ''Twitch'', user = ''Bot'', msg_text = ''hi'',
          isSubscriber = False, color = None \<rparr>]"
  by (simp add: authored_by_identity_def bot_tags_def on_message_def twitch_chatMessage_def)

subsection \<open>C5: the live chat has ended\<close>




subsection \<open>C6: the last subscriber leaves\<close>

text \<open>
  C6, as the source has it. In every state that a sequence of events produces from the
  initial state, a disconnect whose handler reads a client count of 0 parts the Twitch
  channel and clears it, clears the interval variable and cancels the interval it held,
  and that one only, and leaves no live chat attached: the live chat identifier is cleared
  whenever an interval was held. The watermark is not cleared and keeps the value it had,
  and intervals that the variable no longer held stay active.
\<close>

theorem teardown_clears_held_handles:
  assumes "run evs init = (s, out)" and "step (Disconnect 0) s = (s', out')"
  shows "twitchChannel s' = None \<and>
         out' = (case twitchChannel s of None \<Rightarrow> [] | Some c \<Rightarrow> [TwitchPart c]) \<and>
         youtubeInterval s' = None \<and>
         timers s' = (case youtubeInterval s of None \<Rightarrow> timers s
                      | Some t \<Rightarrow> removeAll t (timers s)) \<and>
         (youtubeInterval s \<noteq> None \<longrightarrow> youtubeLiveChatId s' = None) \<and>
         \<not> truthy (youtubeLiveChatId s') \<and>
         lastYoutubeCheck s' = lastYoutubeCheck s"
proof -
  have "attached_inv s" using attached_inv_run [OF attached_inv_init, of evs] assms(1) by simp
  then show ?thesis using assms(2)
    by (auto simp: attached_inv_def disconnect_def disconnect_twitch_def disconnect_youtube_def
        clearInterval_def split: option.splits if_splits)
qed

text \<open>
  After two start requests and one poll that moved the watermark to 300, the disconnect
  that reads 0 parts \<open>abc\<close>, clears the three variables and cancels interval 1, which the
  variable held; interval 0 stays active and the watermark is still 300.
\<close>

theorem teardown_clears_held_handles_witness:
  "(let s = fst (run [live_start 100, live_start 200, Tick 1 (Items [item_at 300])] init);
        s' = fst (step (Disconnect 0) s)
    in twitchChannel s = Some ''abc'' \<and> youtubeInterval s = Some 1 \<and>
       youtubeLiveChatId s = Some ''chat1'' \<and> timers s = [0, 1] \<and>
       snd (step (Disconnect 0) s) = [TwitchPart ''abc''] \<and>
       twitchChannel s' = None \<and> youtubeInterval s' = None \<and> youtubeLiveChatId s' = None \<and>
       timers s' = [0] \<and> lastYoutubeCheck s' = Some (Date 300))"
  using teardown_clears_held_handles
    [of "[live_start 100, live_start 200, Tick 1 (Items [item_at 300])]"
      "fst (run [live_start 100, live_start 200, Tick 1 (Items [item_at 300])] init)"
      "snd (run [live_start 100, live_start 200, Tick 1 (Items [item_at 300])] init)"
      "fst (step (Disconnect 0)
         (fst (run [live_start 100, live_start 200, Tick 1 (Items [item_at 300])] init)))"
      "snd (step (Disconnect 0)
         (fst (run [live_start 100, live_start 200, Tick 1 (Items [item_at 300])] init)))"]
  by (simp add: handler_defs)

text \<open>
  Not every field is cleared. After a start request at time 100 and the disconnect that
  reads 0, the watermark is still 100. After two start requests and that disconnect, the
  interval of the first start request is still active.
\<close>

theorem watermark_kept_counterexample:
  "lastYoutubeCheck (fst (run [live_start 100, Disconnect 0] init)) = Some (Date 100) \<and>
   lastYoutubeCheck (fst (run [live_start 100, Disconnect 0] init)) \<noteq> None \<and>
   timers (fst (run [live_start 100, live_start 200, Disconnect 0] init)) = [0]"
  by (simp add: handler_defs)

subsection \<open>C7: a second start request\<close>




subsection \<open>C8: no live stream is found\<close>

text \<open>
  C8. A start request for YouTube channel \<open>UC1\<close> whose search answers no item: the live
  chat identifier stays empty and no interval is created, but nothing is broadcast. The
  notice that no active live stream was found is broadcast only when a call throws.
\<close>

theorem not_found_silent:
  "start_connection \<lparr> data_twitchChannel = None, data_youtubeChannelId = Some ''UC1'' \<rparr>
     100 (Resolves []) (Resolves []) init =
   (init\<lparr>lastYoutubeCheck := Some (Date 100)\<rparr>, [YoutubeSearchList ''UC1'']) \<and>
   getLiveChatId ''UC1'' Rejects (Resolves []) =
     (None, [YoutubeSearchList ''UC1'', EmitErrorMessage not_found_notice])"
  by (simp add: handler_defs)

subsection \<open>C9: a disconnect that leaves subscribers\<close>

text \<open>
  C9. A disconnect that reads a client count above zero changes no variable, cancels no
  timer and calls no collaborator.
\<close>

theorem disconnect_above_zero_unchanged:
  "0 < clientsCount \<Longrightarrow> step (Disconnect clientsCount) s = (s, [])"
  by (simp add: disconnect_def)

text \<open>With two clients left nothing changes; with none left the state does change.\<close>

theorem disconnect_above_zero_unchanged_witness:
  "(0::nat) < 2 \<and>
   step (Disconnect 2) (fst (run [live_start 100] init)) = (fst (run [live_start 100] init), []) \<and>
   fst (step (Disconnect 0) (fst (run [live_start 100] init))) \<noteq> fst (run [live_start 100] init)"
  using disconnect_above_zero_unchanged [of 2 "fst (run [live_start 100] init)"]
  by (simp add: handler_defs)

subsection \<open>C10: the backlog at the start request\<close>

text \<open>
  C10, as the source has it. A start request at time \<open>now\<close> that names a pull channel sets
  the watermark to \<open>now\<close>. For every later sequence of events and every poll answered after
  it, a watermark is held and the poll forwards exactly the items of its batch published
  strictly after that watermark, each of them published strictly after \<open>now\<close>, provided
  that the clock of no later start request naming a pull channel reads earlier than \<open>now\<close>,
  and that the feed has returned no backlog item late: no item published at or before \<open>now\<close>
  comes in a batch when it is later than the last item of the latest non-empty batch
  answered before, with no start request naming a pull channel in between.
\<close>

theorem backlog_never_forwarded:
  assumes "truthy (data_youtubeChannelId data)"
    and "start_connection data now search videos s = (s1, out1)"
    and "\<forall>e\<in>set evs. clock_not_before now e" and "run evs s1 = (s2, out2)"
    and "polled poll s2 = Some batch"
    and "on_time now None (evs @ [poll]) s1"
  shows "lastYoutubeCheck s1 = Some (Date now) \<and>
         (\<exists>w. lastYoutubeCheck s2 = Some w \<and>
            chat_messages (snd (step poll s2)) =
              map youtube_chatMessage (filter (\<lambda>x. date_gt (publishedAt x) w) batch) \<and>
            (\<forall>x\<in>set batch. date_gt (publishedAt x) w \<longrightarrow> date_gt (publishedAt x) (Date now)))"
proof -
  from start_sets_watermark [OF assms(1), of now search videos s] assms(2)
  have s1: "lastYoutubeCheck s1 = Some (Date now)" by simp
  have "watermark_from now None (Date now)" by (simp add: watermark_from_def)
  from run_on_time [OF assms(3) s1 this assms(6)] assms(4)
  obtain w prev where w: "lastYoutubeCheck s2 = Some w" and agree: "watermark_from now prev w"
    and last: "on_time now prev [poll] s2"
    by auto
  from assms(5) have "\<not> names_pull poll" by (cases poll) simp_all
  with last assms(5)
  have late: "\<forall>x\<in>set batch. date_le (publishedAt x) (Date now) \<longrightarrow>
      (case prev of None \<Rightarrow> True | Some l \<Rightarrow> \<not> date_gt (publishedAt x) l)"
    by simp
  have after: "\<forall>x\<in>set batch. date_gt (publishedAt x) w \<longrightarrow> date_gt (publishedAt x) (Date now)"
  proof (intro ballI impI)
    fix x
    assume x: "x \<in> set batch" and gt: "date_gt (publishedAt x) w"
    show "date_gt (publishedAt x) (Date now)"
    proof (cases prev)
      case None
      with agree gt show ?thesis
        by (cases "publishedAt x"; cases w) (auto simp: watermark_from_def)
    next
      case (Some l)
      with agree have "w = l" by (simp add: watermark_from_def)
      with late x gt Some have "\<not> date_le (publishedAt x) (Date now)" by auto
      with gt show ?thesis
        by (cases "publishedAt x"; cases w) auto
    qed
  qed
  have "is_new (Some w) = (\<lambda>x. date_gt (publishedAt x) w)"
    by (rule ext) simp
  with polled_chat_messages [OF assms(5)] w
  have "chat_messages (snd (step poll s2)) =
          map youtube_chatMessage (filter (\<lambda>x. date_gt (publishedAt x) w) batch)"
    by simp
  with s1 w after show ?thesis by blast
qed

text \<open>
  Start request at time 100. The first poll answers the backlog published at 10 and 20 and
  moves the watermark back to 20. A second start request follows at time 120, then a fetch
  that stays in flight, a Twitch message, and the answer 10, 20, 150 to the fetch. The next
  poll answers 20, 150 and 160 and forwards the item published at 160 only.
\<close>

theorem backlog_never_forwarded_witness:
  "(let s1 = fst (step (live_start 100) init);
        evs = [Tick 0 (Items [item_at 10, item_at 20]), live_start 120, Fire 0,
               TwitchMessage ''abc'' viewer_tags ''hi'' False,
               Answer (Items [item_at 10, item_at 20, item_at 150])];
        poll = Tick 1 (Items [item_at 20, item_at 150, item_at 160]);
        s2 = fst (run evs s1)
    in (\<forall>e\<in>set evs. clock_not_before 100 e) \<and> on_time 100 None (evs @ [poll]) s1 \<and>
       polled poll s2 = Some [item_at 20, item_at 150, item_at 160] \<and>
       lastYoutubeCheck s1 = Some (Date 100) \<and> lastYoutubeCheck s2 = Some (Date 150) \<and>
       chat_messages (snd (run evs s1)) =
         [twitch_chatMessage viewer_tags ''hi'', youtube_chatMessage (item_at 150)] \<and>
       chat_messages (snd (step poll s2)) = [youtube_chatMessage (item_at 160)])"
  using backlog_never_forwarded
    [of "\<lparr> data_twitchChannel = Some ''abc'', data_youtubeChannelId = Some ''UC1'' \<rparr>"
      100 "Resolves [''video1'']" "Resolves [\<lparr> liveStreamingDetails = Some (Some ''chat1'') \<rparr>]"
      init "fst (step (live_start 100) init)" "snd (step (live_start 100) init)"
      "[Tick 0 (Items [item_at 10, item_at 20]), live_start 120, Fire 0,
        TwitchMessage ''abc'' viewer_tags ''hi'' False,
        Answer (Items [item_at 10, item_at 20, item_at 150])]"
      "fst (run [Tick 0 (Items [item_at 10, item_at 20]), live_start 120, Fire 0,
                 TwitchMessage ''abc'' viewer_tags ''hi'' False,
                 Answer (Items [item_at 10, item_at 20, item_at 150])]
              (fst (step (live_start 100) init)))"
      "snd (run [Tick 0 (Items [item_at 10, item_at 20]), live_start 120, Fire 0,
                 TwitchMessage ''abc'' viewer_tags ''hi'' False,
                 Answer (Items [item_at 10, item_at 20, item_at 150])]
              (fst (step (live_start 100) init)))"
      "Tick 1 (Items [item_at 20, item_at 150, item_at 160])"
      "[item_at 20, item_at 150, item_at 160]"]
  by (simp add: handler_defs viewer_tags_def)

text \<open>
  An item published before the start request can be forwarded: after a start request at
  time 100, a first poll that answers the backlog item published at 10 moves the watermark
  to 10, and a second poll forwards the item published at 50.
\<close>

theorem backlog_forwarded_counterexample:
  "chat_messages (snd (run [live_start 100, Tick 0 (Items [item_at 10]),
       Tick 0 (Items [item_at 10, item_at 50])] init)) = [youtube_chatMessage (item_at 50)] \<and>
   publishedAt (item_at 50) = Date 50 \<and> date_le (Date 50) (Date 100)"
  by (simp add: handler_defs)

end
